theory Spec2Isabelle
  imports Main "HOL-Library.Word" "HOL-Library.Sublist"
begin

section \<open>The fact store of \<open>useFacts.ts\<close>\<close>

subsection \<open>Strings\<close>

text \<open>
  A JavaScript string is a finite sequence of UTF-16 code units. The empty sequence is
  the only falsy string.
\<close>

type_synonym jsstring = "16 word list"

text \<open>An ASCII literal of the source, as code units.\<close>

definition lit :: "string \<Rightarrow> jsstring" where
  "lit s = map of_char s"

text \<open>
  \<open>String.prototype.trim\<close> removes from both ends the code points that are WhiteSpace or
  LineTerminator in ECMAScript: TAB, VT, FF, SP, NBSP, ZWNBSP and the Unicode category
  Zs, and LF, CR, LS, PS. All of them are in the basic plane, so each is one code unit,
  and no surrogate is among them.
\<close>

definition isWhiteSpace :: "16 word \<Rightarrow> bool" where
  "isWhiteSpace c \<longleftrightarrow>
     c = 0x0009 \<or> c = 0x000B \<or> c = 0x000C \<or> c = 0x0020 \<or> c = 0x00A0 \<or> c = 0xFEFF \<or>
     c = 0x1680 \<or> (0x2000 \<le> c \<and> c \<le> 0x200A) \<or> c = 0x202F \<or> c = 0x205F \<or> c = 0x3000"

definition isLineTerminator :: "16 word \<Rightarrow> bool" where
  "isLineTerminator c \<longleftrightarrow> c = 0x000A \<or> c = 0x000D \<or> c = 0x2028 \<or> c = 0x2029"

definition isTrimmed :: "16 word \<Rightarrow> bool" where
  "isTrimmed c \<longleftrightarrow> isWhiteSpace c \<or> isLineTerminator c"

definition trimStart :: "jsstring \<Rightarrow> jsstring" where
  "trimStart s = dropWhile isTrimmed s"

definition trimEnd :: "jsstring \<Rightarrow> jsstring" where
  "trimEnd s = rev (dropWhile isTrimmed (rev s))"

definition trim :: "jsstring \<Rightarrow> jsstring" where
  "trim s = trimEnd (trimStart s)"

subsection \<open>Data\<close>

text \<open>
  Modelled from the spec: the type \<open>FactRecord\<close> is declared in \<open>../lib/facts\<close>, which is
  not among the sources. Its four fields are the ones the spec lists and the ones
  \<open>performAction\<close> writes; each holds a string. The fields \<open>id\<close> and \<open>text\<close> are named
  \<open>id_fact\<close> and \<open>text_fact\<close> here.
\<close>

record FactRecord =
  id_fact :: jsstring
  text_fact :: jsstring
  status :: jsstring
  createdAt :: jsstring

datatype ActionType = Save | Discard

text \<open>The optional \<open>factText\<close> is absent (\<open>None\<close>) or a string.\<close>

record FactAction =
  type_action :: ActionType
  factId :: jsstring
  factText :: "jsstring option"

text \<open>How the promise returned by an \<open>async\<close> function settles.\<close>

datatype Settled = Fulfilled | Rejected

subsection \<open>The hook\<close>

text \<open>
  \<open>nullish d v\<close> is \<open>v ?? d\<close>. \<open>some\<close> is \<open>Array.prototype.some\<close>.
\<close>

definition nullish :: "'a \<Rightarrow> 'a option \<Rightarrow> 'a" where
  "nullish d v = (case v of None \<Rightarrow> d | Some x \<Rightarrow> x)"

definition some :: "('a \<Rightarrow> bool) \<Rightarrow> 'a list \<Rightarrow> bool" where
  "some p xs = list_ex p xs"

text \<open>
  The function that \<open>performAction\<close> hands to \<open>setFacts\<close>: from the current collection
  to the next one. The clock is read once, in the branch that appends; its reading
  \<open>new Date().toISOString()\<close> is the parameter \<open>now\<close>.
\<close>

definition updater :: "jsstring \<Rightarrow> FactAction \<Rightarrow> FactRecord list \<Rightarrow> FactRecord list" where
  "updater now action currentFacts =
     (if type_action action = Save then
        (let text = trim (nullish [] (factText action)) in
         if text = [] \<or> some (\<lambda>fact. id_fact fact = factId action) currentFacts
         then currentFacts
         else
           (let newFact =
              \<lparr>id_fact = factId action, text_fact = text, status = lit ''saved'',
               createdAt = now\<rparr>
            in currentFacts @ [newFact]))
      else filter (\<lambda>fact. id_fact fact \<noteq> factId action) currentFacts)"

text \<open>
  \<open>performAction\<close> replaces the state \<open>facts\<close> by what the updater computes from it, and
  its promise is fulfilled: the body has no \<open>throw\<close> and no \<open>await\<close>, and it calls nothing
  that throws on values of the declared types.
\<close>

definition performAction ::
  "jsstring \<Rightarrow> FactAction \<Rightarrow> FactRecord list \<Rightarrow> Settled \<times> FactRecord list" where
  "performAction now action facts = (Fulfilled, updater now action facts)"

text \<open>\<open>refresh\<close> has an empty body: the state after it is the state before it.\<close>

definition refresh :: "FactRecord list \<Rightarrow> FactRecord list" where
  "refresh facts = facts"

text \<open>
  A run of the store: the actions dispatched one after the other, each with the reading
  of the clock at its time, starting from a given collection.
\<close>

fun run :: "(jsstring \<times> FactAction) list \<Rightarrow> FactRecord list \<Rightarrow> FactRecord list" where
  "run [] facts = facts"
| "run ((now, action) # rest) facts = run rest (snd (performAction now action facts))"

text \<open>The two invariants of the collection.\<close>

definition uniqueIds :: "FactRecord list \<Rightarrow> bool" where
  "uniqueIds facts \<longleftrightarrow> distinct (map id_fact facts)"

definition textsTrimmed :: "FactRecord list \<Rightarrow> bool" where
  "textsTrimmed facts \<longleftrightarrow> list_all (\<lambda>f. text_fact f \<noteq> [] \<and> trim (text_fact f) = text_fact f) facts"

subsection \<open>Evaluation and basic facts\<close>

lemmas eval_defs =
  performAction_def updater_def nullish_def some_def Let_def refresh_def
  uniqueIds_def textsTrimmed_def
  trim_def trimStart_def trimEnd_def isTrimmed_def isWhiteSpace_def isLineTerminator_def lit_def

lemma nullish_simps [simp]: "nullish d None = d" "nullish d (Some x) = x"
  by (simp_all add: nullish_def)

lemma some_iff: "some p xs \<longleftrightarrow> (\<exists>x \<in> set xs. p x)"
  by (simp add: some_def list_ex_iff)

subsection \<open>\<open>trim\<close> is idempotent\<close>

lemma dropWhile_fixed: "xs = [] \<or> \<not> P (hd xs) \<Longrightarrow> dropWhile P xs = xs"
  by (cases xs) auto

lemma dropWhile_head: "dropWhile P xs = [] \<or> \<not> P (hd (dropWhile P xs))"
  using hd_dropWhile [of P xs] by blast

lemma trimEnd_decomp: "trimEnd s @ rev (takeWhile isTrimmed (rev s)) = s"
proof -
  have "rev (takeWhile isTrimmed (rev s) @ dropWhile isTrimmed (rev s)) = s"
    by (simp only: takeWhile_dropWhile_id rev_rev_ident)
  then show ?thesis
    by (simp only: trimEnd_def rev_append)
qed

lemma trimEnd_idem: "trimEnd (trimEnd s) = trimEnd s"
  unfolding trimEnd_def rev_rev_ident
  by (simp add: dropWhile_fixed dropWhile_head)

lemma trimStart_trimEnd:
  assumes "s = [] \<or> \<not> isTrimmed (hd s)"
  shows "trimStart (trimEnd s) = trimEnd s"
proof (cases "trimEnd s = []")
  case True
  then show ?thesis by (simp add: trimStart_def)
next
  case False
  then have "hd (trimEnd s @ rev (takeWhile isTrimmed (rev s))) = hd (trimEnd s)"
    by (rule hd_append2)
  then have same: "hd s = hd (trimEnd s)"
    by (simp only: trimEnd_decomp)
  from False have "s \<noteq> []"
    by (auto simp: trimEnd_def)
  with assms same have "\<not> isTrimmed (hd (trimEnd s))"
    by simp
  then show ?thesis
    unfolding trimStart_def by (simp add: dropWhile_fixed)
qed

lemma trim_idem: "trim (trim s) = trim s"
proof -
  have "trimStart s = [] \<or> \<not> isTrimmed (hd (trimStart s))"
    unfolding trimStart_def by (rule dropWhile_head)
  then have "trimStart (trimEnd (trimStart s)) = trimEnd (trimStart s)"
    by (rule trimStart_trimEnd)
  then show ?thesis
    by (simp add: trim_def trimEnd_idem)
qed

subsection \<open>The two branches of the updater\<close>

lemma updater_save:
  "type_action a = Save \<Longrightarrow>
   updater now a facts =
     (if trim (nullish [] (factText a)) = [] \<or> (\<exists>f \<in> set facts. id_fact f = factId a)
      then facts
      else facts @ [\<lparr>id_fact = factId a, text_fact = trim (nullish [] (factText a)),
                     status = lit ''saved'', createdAt = now\<rparr>])"
  by (simp add: updater_def some_iff Let_def)

lemma updater_discard:
  "type_action a = Discard \<Longrightarrow>
   updater now a facts = filter (\<lambda>f. id_fact f \<noteq> factId a) facts"
  by (simp add: updater_def)

lemma distinct_split_others:
  assumes "distinct (map f (pre @ r # post))"
  shows "\<forall>x \<in> set (pre @ post). f x \<noteq> f r"
proof
  fix x assume "x \<in> set (pre @ post)"
  then have "f x \<in> f ` set pre \<or> f x \<in> f ` set post"
    by auto
  moreover from assms have "f r \<notin> f ` set pre" and "f r \<notin> f ` set post"
    by auto
  ultimately show "f x \<noteq> f r"
    by metis
qed

subsection \<open>The invariants are preserved\<close>

lemma uniqueIds_updater: "uniqueIds facts \<Longrightarrow> uniqueIds (updater now a facts)"
proof (cases "type_action a")
  case Save
  assume "uniqueIds facts"
  with Save show ?thesis
    by (auto simp: updater_save uniqueIds_def)
next
  case Discard
  assume "uniqueIds facts"
  with Discard show ?thesis
    by (simp add: updater_discard uniqueIds_def distinct_map_filter)
qed

lemma textsTrimmed_updater: "textsTrimmed facts \<Longrightarrow> textsTrimmed (updater now a facts)"
proof (cases "type_action a")
  case Save
  assume "textsTrimmed facts"
  with Save show ?thesis
    by (simp add: updater_save textsTrimmed_def trim_idem)
next
  case Discard
  assume "textsTrimmed facts"
  with Discard show ?thesis
    by (simp add: updater_discard textsTrimmed_def list_all_iff)
qed

lemma run_invariants:
  "uniqueIds facts \<Longrightarrow> textsTrimmed facts \<Longrightarrow>
   uniqueIds (run steps facts) \<and> textsTrimmed (run steps facts)"
proof (induction steps arbitrary: facts)
  case Nil
  then show ?case by simp
next
  case (Cons step steps)
  obtain now a where step: "step = (now, a)"
    by (cases step)
  have "uniqueIds (updater now a facts)" and "textsTrimmed (updater now a facts)"
    using Cons.prems by (simp_all add: uniqueIds_updater textsTrimmed_updater)
  then show ?case
    using Cons.IH [of "updater now a facts"] by (simp add: step performAction_def)
qed

section \<open>The claims\<close>

text \<open>
  C1. A save whose trimmed text is not empty, on a collection that has no record with
  the action's \<open>factId\<close>, is fulfilled and leaves the old collection with one record
  appended at its end: the id is \<open>factId\<close>, the text is the trimmed \<open>factText\<close>, the
  status is \<open>"saved"\<close>, and the records that were there stay as they were, in place.
\<close>

theorem save_appends:
  assumes "type_action a = Save"
    and "trim (nullish [] (factText a)) \<noteq> []"
    and "\<forall>f \<in> set facts. id_fact f \<noteq> factId a"
  shows "performAction now a facts =
           (Fulfilled,
            facts @ [\<lparr>id_fact = factId a, text_fact = trim (nullish [] (factText a)),
                       status = lit ''saved'', createdAt = now\<rparr>])"
  using assms by (simp add: performAction_def updater_save)

theorem save_appends_witness:
  "performAction (lit ''2024-05-01T10:00:00.000Z'')
     \<lparr>type_action = Save, factId = lit ''a'', factText = Some (lit '' hello '')\<rparr>
     [\<lparr>id_fact = lit ''b'', text_fact = lit ''x'', status = lit ''saved'',
       createdAt = lit ''2024-05-01T09:00:00.000Z''\<rparr>]
   = (Fulfilled,
      [\<lparr>id_fact = lit ''b'', text_fact = lit ''x'', status = lit ''saved'',
        createdAt = lit ''2024-05-01T09:00:00.000Z''\<rparr>,
       \<lparr>id_fact = lit ''a'', text_fact = lit ''hello'', status = lit ''saved'',
        createdAt = lit ''2024-05-01T10:00:00.000Z''\<rparr>])"
  using save_appends
    [of "\<lparr>type_action = Save, factId = lit ''a'', factText = Some (lit '' hello '')\<rparr>"
        "[\<lparr>id_fact = lit ''b'', text_fact = lit ''x'', status = lit ''saved'',
           createdAt = lit ''2024-05-01T09:00:00.000Z''\<rparr>]"
        "lit ''2024-05-01T10:00:00.000Z''"]
  by (simp add: eval_defs)

text \<open>
  C2. A save whose trimmed text is empty (an absent \<open>factText\<close> counts as the empty
  string), or whose \<open>factId\<close> some record of the collection already has, is fulfilled and
  leaves the collection as it was, element by element. In particular, from the empty
  collection, a save of an id with a text that is not blank, followed by a second save of
  the same id with any other text, leaves the one record of the first save.
\<close>

theorem save_noop:
  "(type_action a = Save \<and>
    (trim (nullish [] (factText a)) = [] \<or> (\<exists>f \<in> set facts. id_fact f = factId a))
    \<longrightarrow> performAction now a facts = (Fulfilled, facts))
   \<and>
   (trim t1 \<noteq> [] \<longrightarrow>
    run [(n1, \<lparr>type_action = Save, factId = fid, factText = Some t1\<rparr>),
         (n2, \<lparr>type_action = Save, factId = fid, factText = t2\<rparr>)] []
    = [\<lparr>id_fact = fid, text_fact = trim t1, status = lit ''saved'', createdAt = n1\<rparr>])"
  by (simp add: performAction_def updater_save)

theorem save_noop_witness:
  "performAction (lit ''t1'')
     \<lparr>type_action = Save, factId = lit ''a'', factText = Some (lit ''   '')\<rparr> []
   = (Fulfilled, [])
   \<and>
   performAction (lit ''t2'')
     \<lparr>type_action = Save, factId = lit ''a'', factText = Some (lit ''second'')\<rparr>
     [\<lparr>id_fact = lit ''a'', text_fact = lit ''first'', status = lit ''saved'',
       createdAt = lit ''t1''\<rparr>]
   = (Fulfilled,
      [\<lparr>id_fact = lit ''a'', text_fact = lit ''first'', status = lit ''saved'',
        createdAt = lit ''t1''\<rparr>])
   \<and>
   run [(lit ''t1'', \<lparr>type_action = Save, factId = lit ''a'', factText = Some (lit ''first'')\<rparr>),
        (lit ''t2'', \<lparr>type_action = Save, factId = lit ''a'', factText = Some (lit ''second'')\<rparr>)] []
   = [\<lparr>id_fact = lit ''a'', text_fact = lit ''first'', status = lit ''saved'',
       createdAt = lit ''t1''\<rparr>]"
  using
    save_noop
      [of "\<lparr>type_action = Save, factId = lit ''a'', factText = Some (lit ''   '')\<rparr>"
          "[]" "lit ''t1''" "lit ''first''" "lit ''t1''" "lit ''a''" "lit ''t2''"
          "Some (lit ''second'')"]
    save_noop
      [of "\<lparr>type_action = Save, factId = lit ''a'', factText = Some (lit ''second'')\<rparr>"
          "[\<lparr>id_fact = lit ''a'', text_fact = lit ''first'', status = lit ''saved'',
             createdAt = lit ''t1''\<rparr>]"
          "lit ''t2''" "lit ''first''" "lit ''t1''" "lit ''a''" "lit ''t2''"
          "Some (lit ''second'')"]
  by (simp add: eval_defs)

text \<open>
  C3. On a collection with unique ids that has a record with the action's \<open>factId\<close>, a
  discard is fulfilled and takes exactly that record out: the collection was
  \<open>pre @ r # post\<close> with \<open>r\<close> the record of that id, and it becomes \<open>pre @ post\<close>, which
  has no record of that id and is one shorter. The other records are the same, in the
  same order.
\<close>

theorem discard_removes:
  assumes "type_action a = Discard"
    and "uniqueIds facts"
    and "\<exists>f \<in> set facts. id_fact f = factId a"
  shows "\<exists>pre r post.
           facts = pre @ r # post \<and> id_fact r = factId a \<and>
           performAction now a facts = (Fulfilled, pre @ post) \<and>
           (\<forall>f \<in> set (pre @ post). id_fact f \<noteq> factId a) \<and>
           length (pre @ post) + 1 = length facts"
proof -
  from assms(3) obtain r where "r \<in> set facts" and r: "id_fact r = factId a"
    by blast
  then obtain pre post where split: "facts = pre @ r # post"
    by (auto simp: in_set_conv_decomp)
  from assms(2) have "distinct (map id_fact (pre @ r # post))"
    by (simp only: uniqueIds_def split)
  then have "\<forall>f \<in> set (pre @ post). id_fact f \<noteq> id_fact r"
    by (rule distinct_split_others)
  then have others: "\<forall>f \<in> set (pre @ post). id_fact f \<noteq> factId a"
    by (simp only: r)
  then have "filter (\<lambda>f. id_fact f \<noteq> factId a) facts = pre @ post"
    unfolding split using r by (simp add: filter_id_conv)
  with assms(1) have "performAction now a facts = (Fulfilled, pre @ post)"
    by (simp add: performAction_def updater_discard)
  with split r others show ?thesis
    by (intro exI [of _ pre] exI [of _ r] exI [of _ post]) simp
qed

theorem discard_removes_witness:
  "performAction (lit ''t'')
     \<lparr>type_action = Discard, factId = lit ''a'', factText = None\<rparr>
     [\<lparr>id_fact = lit ''b'', text_fact = lit ''x'', status = lit ''saved'', createdAt = lit ''t0''\<rparr>,
      \<lparr>id_fact = lit ''a'', text_fact = lit ''y'', status = lit ''saved'', createdAt = lit ''t1''\<rparr>,
      \<lparr>id_fact = lit ''c'', text_fact = lit ''z'', status = lit ''saved'', createdAt = lit ''t2''\<rparr>]
   = (Fulfilled,
      [\<lparr>id_fact = lit ''b'', text_fact = lit ''x'', status = lit ''saved'', createdAt = lit ''t0''\<rparr>,
       \<lparr>id_fact = lit ''c'', text_fact = lit ''z'', status = lit ''saved'', createdAt = lit ''t2''\<rparr>])"
  using discard_removes
    [of "\<lparr>type_action = Discard, factId = lit ''a'', factText = None\<rparr>"
        "[\<lparr>id_fact = lit ''b'', text_fact = lit ''x'', status = lit ''saved'', createdAt = lit ''t0''\<rparr>,
          \<lparr>id_fact = lit ''a'', text_fact = lit ''y'', status = lit ''saved'', createdAt = lit ''t1''\<rparr>,
          \<lparr>id_fact = lit ''c'', text_fact = lit ''z'', status = lit ''saved'', createdAt = lit ''t2''\<rparr>]"
        "lit ''t''"]
  by (simp add: eval_defs)

text \<open>
  C4. A discard of an id that no record of the collection has is fulfilled and leaves
  the collection as it was: the same elements in the same order.
\<close>

theorem discard_unknown_noop:
  assumes "type_action a = Discard"
    and "\<forall>f \<in> set facts. id_fact f \<noteq> factId a"
  shows "performAction now a facts = (Fulfilled, facts)"
  using assms by (simp add: performAction_def updater_discard filter_id_conv)

theorem discard_unknown_noop_witness:
  "performAction (lit ''t'')
     \<lparr>type_action = Discard, factId = lit ''zz'', factText = None\<rparr>
     [\<lparr>id_fact = lit ''b'', text_fact = lit ''x'', status = lit ''saved'', createdAt = lit ''t0''\<rparr>,
      \<lparr>id_fact = lit ''a'', text_fact = lit ''y'', status = lit ''saved'', createdAt = lit ''t1''\<rparr>]
   = (Fulfilled,
      [\<lparr>id_fact = lit ''b'', text_fact = lit ''x'', status = lit ''saved'', createdAt = lit ''t0''\<rparr>,
       \<lparr>id_fact = lit ''a'', text_fact = lit ''y'', status = lit ''saved'', createdAt = lit ''t1''\<rparr>])"
  using discard_unknown_noop
    [of "\<lparr>type_action = Discard, factId = lit ''zz'', factText = None\<rparr>"
        "[\<lparr>id_fact = lit ''b'', text_fact = lit ''x'', status = lit ''saved'', createdAt = lit ''t0''\<rparr>,
          \<lparr>id_fact = lit ''a'', text_fact = lit ''y'', status = lit ''saved'', createdAt = lit ''t1''\<rparr>]"
        "lit ''t''"]
  by (simp add: eval_defs)

text \<open>
  C5. Whatever actions are dispatched from the empty collection, and whatever the clock
  reads at each, the collection reached has no two records with the same id, and the
  text of each of its records is not empty and is its own trimmed value.
\<close>

theorem reachable_invariants:
  "uniqueIds (run steps []) \<and> textsTrimmed (run steps [])"
  by (rule run_invariants) (simp_all add: uniqueIds_def textsTrimmed_def)

theorem reachable_invariants_witness:
  "run [(lit ''t1'', \<lparr>type_action = Save, factId = lit ''a'', factText = Some (lit '' hello '')\<rparr>),
        (lit ''t2'', \<lparr>type_action = Save, factId = lit ''a'', factText = Some (lit ''again'')\<rparr>),
        (lit ''t3'', \<lparr>type_action = Save, factId = lit ''b'', factText = None\<rparr>)] []
   = [\<lparr>id_fact = lit ''a'', text_fact = lit ''hello'', status = lit ''saved'',
       createdAt = lit ''t1''\<rparr>]
   \<and> uniqueIds [\<lparr>id_fact = lit ''a'', text_fact = lit ''hello'', status = lit ''saved'',
                 createdAt = lit ''t1''\<rparr>]
   \<and> textsTrimmed [\<lparr>id_fact = lit ''a'', text_fact = lit ''hello'', status = lit ''saved'',
                    createdAt = lit ''t1''\<rparr>]"
  using reachable_invariants
    [of "[(lit ''t1'', \<lparr>type_action = Save, factId = lit ''a'', factText = Some (lit '' hello '')\<rparr>),
          (lit ''t2'', \<lparr>type_action = Save, factId = lit ''a'', factText = Some (lit ''again'')\<rparr>),
          (lit ''t3'', \<lparr>type_action = Save, factId = lit ''b'', factText = None\<rparr>)]"]
  by (simp add: eval_defs)

text \<open>
  C6. From the empty collection, saving three distinct ids in turn, each with a text
  that is not blank, gives the three records in the order of the saves, and discarding
  the second one then gives the first and the third in that order. In general a save
  either leaves the collection as it is or appends one record at its end, and what a
  discard leaves is a subsequence of the collection: the remaining records keep their
  relative order.
\<close>

theorem order_preserved:
  "(distinct [ia, ib, ic] \<and> trim ta \<noteq> [] \<and> trim tb \<noteq> [] \<and> trim tc \<noteq> [] \<longrightarrow>
      run [(na, \<lparr>type_action = Save, factId = ia, factText = Some ta\<rparr>),
           (nb, \<lparr>type_action = Save, factId = ib, factText = Some tb\<rparr>),
           (nc, \<lparr>type_action = Save, factId = ic, factText = Some tc\<rparr>)] []
      = [\<lparr>id_fact = ia, text_fact = trim ta, status = lit ''saved'', createdAt = na\<rparr>,
         \<lparr>id_fact = ib, text_fact = trim tb, status = lit ''saved'', createdAt = nb\<rparr>,
         \<lparr>id_fact = ic, text_fact = trim tc, status = lit ''saved'', createdAt = nc\<rparr>]
      \<and>
      run [(na, \<lparr>type_action = Save, factId = ia, factText = Some ta\<rparr>),
           (nb, \<lparr>type_action = Save, factId = ib, factText = Some tb\<rparr>),
           (nc, \<lparr>type_action = Save, factId = ic, factText = Some tc\<rparr>),
           (nd, \<lparr>type_action = Discard, factId = ib, factText = td\<rparr>)] []
      = [\<lparr>id_fact = ia, text_fact = trim ta, status = lit ''saved'', createdAt = na\<rparr>,
         \<lparr>id_fact = ic, text_fact = trim tc, status = lit ''saved'', createdAt = nc\<rparr>])
   \<and>
   (type_action a = Save \<longrightarrow>
      performAction now a facts = (Fulfilled, facts) \<or>
      (\<exists>r. performAction now a facts = (Fulfilled, facts @ [r])))
   \<and>
   (type_action a = Discard \<longrightarrow>
      subseq (snd (performAction now a facts)) facts \<and>
      set (snd (performAction now a facts)) = {f \<in> set facts. id_fact f \<noteq> factId a})"
proof (intro conjI impI)
  assume h: "distinct [ia, ib, ic] \<and> trim ta \<noteq> [] \<and> trim tb \<noteq> [] \<and> trim tc \<noteq> []"
  then have ne: "ia \<noteq> ib" "ia \<noteq> ic" "ib \<noteq> ic" "ib \<noteq> ia" "ic \<noteq> ia" "ic \<noteq> ib"
    by auto
  from h ne show
    "run [(na, \<lparr>type_action = Save, factId = ia, factText = Some ta\<rparr>),
          (nb, \<lparr>type_action = Save, factId = ib, factText = Some tb\<rparr>),
          (nc, \<lparr>type_action = Save, factId = ic, factText = Some tc\<rparr>)] []
     = [\<lparr>id_fact = ia, text_fact = trim ta, status = lit ''saved'', createdAt = na\<rparr>,
        \<lparr>id_fact = ib, text_fact = trim tb, status = lit ''saved'', createdAt = nb\<rparr>,
        \<lparr>id_fact = ic, text_fact = trim tc, status = lit ''saved'', createdAt = nc\<rparr>]"
    by (simp add: performAction_def updater_save)
  from h ne show
    "run [(na, \<lparr>type_action = Save, factId = ia, factText = Some ta\<rparr>),
          (nb, \<lparr>type_action = Save, factId = ib, factText = Some tb\<rparr>),
          (nc, \<lparr>type_action = Save, factId = ic, factText = Some tc\<rparr>),
          (nd, \<lparr>type_action = Discard, factId = ib, factText = td\<rparr>)] []
     = [\<lparr>id_fact = ia, text_fact = trim ta, status = lit ''saved'', createdAt = na\<rparr>,
        \<lparr>id_fact = ic, text_fact = trim tc, status = lit ''saved'', createdAt = nc\<rparr>]"
    by (simp add: performAction_def updater_save updater_discard)
next
  assume "type_action a = Save"
  then show "performAction now a facts = (Fulfilled, facts) \<or>
      (\<exists>r. performAction now a facts = (Fulfilled, facts @ [r]))"
    by (simp add: performAction_def updater_save)
next
  assume "type_action a = Discard"
  then show "subseq (snd (performAction now a facts)) facts"
    by (simp add: performAction_def updater_discard)
next
  assume "type_action a = Discard"
  then show "set (snd (performAction now a facts)) = {f \<in> set facts. id_fact f \<noteq> factId a}"
    by (simp add: performAction_def updater_discard)
qed

theorem order_preserved_witness:
  "run [(lit ''t1'', \<lparr>type_action = Save, factId = lit ''a'', factText = Some (lit ''one'')\<rparr>),
        (lit ''t2'', \<lparr>type_action = Save, factId = lit ''b'', factText = Some (lit ''two'')\<rparr>),
        (lit ''t3'', \<lparr>type_action = Save, factId = lit ''c'', factText = Some (lit ''three'')\<rparr>)] []
   = [\<lparr>id_fact = lit ''a'', text_fact = lit ''one'', status = lit ''saved'', createdAt = lit ''t1''\<rparr>,
      \<lparr>id_fact = lit ''b'', text_fact = lit ''two'', status = lit ''saved'', createdAt = lit ''t2''\<rparr>,
      \<lparr>id_fact = lit ''c'', text_fact = lit ''three'', status = lit ''saved'', createdAt = lit ''t3''\<rparr>]
   \<and>
   run [(lit ''t1'', \<lparr>type_action = Save, factId = lit ''a'', factText = Some (lit ''one'')\<rparr>),
        (lit ''t2'', \<lparr>type_action = Save, factId = lit ''b'', factText = Some (lit ''two'')\<rparr>),
        (lit ''t3'', \<lparr>type_action = Save, factId = lit ''c'', factText = Some (lit ''three'')\<rparr>),
        (lit ''t4'', \<lparr>type_action = Discard, factId = lit ''b'', factText = None\<rparr>)] []
   = [\<lparr>id_fact = lit ''a'', text_fact = lit ''one'', status = lit ''saved'', createdAt = lit ''t1''\<rparr>,
      \<lparr>id_fact = lit ''c'', text_fact = lit ''three'', status = lit ''saved'', createdAt = lit ''t3''\<rparr>]
   \<and>
   performAction (lit ''t5'')
     \<lparr>type_action = Save, factId = lit ''d'', factText = Some (lit ''four'')\<rparr>
     [\<lparr>id_fact = lit ''a'', text_fact = lit ''one'', status = lit ''saved'', createdAt = lit ''t1''\<rparr>,
      \<lparr>id_fact = lit ''c'', text_fact = lit ''three'', status = lit ''saved'', createdAt = lit ''t3''\<rparr>]
   = (Fulfilled,
      [\<lparr>id_fact = lit ''a'', text_fact = lit ''one'', status = lit ''saved'', createdAt = lit ''t1''\<rparr>,
       \<lparr>id_fact = lit ''c'', text_fact = lit ''three'', status = lit ''saved'', createdAt = lit ''t3''\<rparr>,
       \<lparr>id_fact = lit ''d'', text_fact = lit ''four'', status = lit ''saved'', createdAt = lit ''t5''\<rparr>])
   \<and>
   performAction (lit ''t6'')
     \<lparr>type_action = Discard, factId = lit ''a'', factText = None\<rparr>
     [\<lparr>id_fact = lit ''a'', text_fact = lit ''one'', status = lit ''saved'', createdAt = lit ''t1''\<rparr>,
      \<lparr>id_fact = lit ''c'', text_fact = lit ''three'', status = lit ''saved'', createdAt = lit ''t3''\<rparr>]
   = (Fulfilled,
      [\<lparr>id_fact = lit ''c'', text_fact = lit ''three'', status = lit ''saved'', createdAt = lit ''t3''\<rparr>])"
  using
    order_preserved
      [of "lit ''a''" "lit ''b''" "lit ''c''" "lit ''one''" "lit ''two''" "lit ''three''"
          "lit ''t1''" "lit ''t2''" "lit ''t3''" "lit ''t4''" None
          "\<lparr>type_action = Save, factId = lit ''d'', factText = Some (lit ''four'')\<rparr>"
          "lit ''t5''"
          "[\<lparr>id_fact = lit ''a'', text_fact = lit ''one'', status = lit ''saved'', createdAt = lit ''t1''\<rparr>,
            \<lparr>id_fact = lit ''c'', text_fact = lit ''three'', status = lit ''saved'', createdAt = lit ''t3''\<rparr>]"]
    order_preserved
      [of "lit ''a''" "lit ''b''" "lit ''c''" "lit ''one''" "lit ''two''" "lit ''three''"
          "lit ''t1''" "lit ''t2''" "lit ''t3''" "lit ''t4''" None
          "\<lparr>type_action = Discard, factId = lit ''a'', factText = None\<rparr>"
          "lit ''t6''"
          "[\<lparr>id_fact = lit ''a'', text_fact = lit ''one'', status = lit ''saved'', createdAt = lit ''t1''\<rparr>,
            \<lparr>id_fact = lit ''c'', text_fact = lit ''three'', status = lit ''saved'', createdAt = lit ''t3''\<rparr>]"]
  by (simp add: eval_defs)

text \<open>
  C7. Calling \<open>refresh\<close> any number of times leaves the collection as it was. The
  collection is the whole state of the hook, and \<open>refresh\<close> returns nothing.
\<close>

theorem refresh_idempotent: "(refresh ^^ n) facts = facts"
  by (induction n) (simp_all add: refresh_def)

theorem refresh_idempotent_witness:
  "(refresh ^^ 3)
     [\<lparr>id_fact = lit ''a'', text_fact = lit ''y'', status = lit ''saved'', createdAt = lit ''t1''\<rparr>]
   = [\<lparr>id_fact = lit ''a'', text_fact = lit ''y'', status = lit ''saved'', createdAt = lit ''t1''\<rparr>]"
  using refresh_idempotent
    [of 3 "[\<lparr>id_fact = lit ''a'', text_fact = lit ''y'', status = lit ''saved'',
              createdAt = lit ''t1''\<rparr>]"]
  by simp

text \<open>
  C8. For every collection and every action, with any id and with any text or none,
  \<open>performAction\<close> returns and its promise is fulfilled, never rejected. The three
  invalid inputs (a save with an empty trimmed text, a save of an id already there, a
  discard of an id not there) leave the collection as it was.
\<close>

theorem performAction_never_fails:
  "(\<exists>facts'. performAction now a facts = (Fulfilled, facts')) \<and>
   fst (performAction now a facts) \<noteq> Rejected \<and>
   ((type_action a = Save \<and> trim (nullish [] (factText a)) = []) \<or>
    (type_action a = Save \<and> (\<exists>f \<in> set facts. id_fact f = factId a)) \<or>
    (type_action a = Discard \<and> (\<forall>f \<in> set facts. id_fact f \<noteq> factId a))
    \<longrightarrow> performAction now a facts = (Fulfilled, facts))"
  by (cases "type_action a")
     (auto simp: performAction_def updater_save updater_discard filter_id_conv)

theorem performAction_never_fails_witness:
  "performAction (lit ''t'') \<lparr>type_action = Save, factId = lit ''a'', factText = None\<rparr>
     [\<lparr>id_fact = lit ''b'', text_fact = lit ''x'', status = lit ''saved'', createdAt = lit ''t0''\<rparr>]
   = (Fulfilled,
      [\<lparr>id_fact = lit ''b'', text_fact = lit ''x'', status = lit ''saved'', createdAt = lit ''t0''\<rparr>])
   \<and>
   performAction (lit ''t'') \<lparr>type_action = Save, factId = lit ''b'', factText = Some (lit ''new'')\<rparr>
     [\<lparr>id_fact = lit ''b'', text_fact = lit ''x'', status = lit ''saved'', createdAt = lit ''t0''\<rparr>]
   = (Fulfilled,
      [\<lparr>id_fact = lit ''b'', text_fact = lit ''x'', status = lit ''saved'', createdAt = lit ''t0''\<rparr>])
   \<and>
   performAction (lit ''t'') \<lparr>type_action = Discard, factId = lit ''a'', factText = None\<rparr>
     [\<lparr>id_fact = lit ''b'', text_fact = lit ''x'', status = lit ''saved'', createdAt = lit ''t0''\<rparr>]
   = (Fulfilled,
      [\<lparr>id_fact = lit ''b'', text_fact = lit ''x'', status = lit ''saved'', createdAt = lit ''t0''\<rparr>])"
  using
    performAction_never_fails
      [of "lit ''t''" "\<lparr>type_action = Save, factId = lit ''a'', factText = None\<rparr>"
          "[\<lparr>id_fact = lit ''b'', text_fact = lit ''x'', status = lit ''saved'',
             createdAt = lit ''t0''\<rparr>]"]
    performAction_never_fails
      [of "lit ''t''" "\<lparr>type_action = Save, factId = lit ''b'', factText = Some (lit ''new'')\<rparr>"
          "[\<lparr>id_fact = lit ''b'', text_fact = lit ''x'', status = lit ''saved'',
             createdAt = lit ''t0''\<rparr>]"]
    performAction_never_fails
      [of "lit ''t''" "\<lparr>type_action = Discard, factId = lit ''a'', factText = None\<rparr>"
          "[\<lparr>id_fact = lit ''b'', text_fact = lit ''x'', status = lit ''saved'',
             createdAt = lit ''t0''\<rparr>]"]
  by (simp add: eval_defs)

text \<open>
  C9. On any collection, also one in which several records share an id, a discard
  leaves no record with the action's \<open>factId\<close>: it takes out every record of that id.
\<close>

theorem discard_removes_all:
  assumes "type_action a = Discard"
  shows "fst (performAction now a facts) = Fulfilled \<and>
         factId a \<notin> id_fact ` set (snd (performAction now a facts))"
  using assms by (auto simp: performAction_def updater_discard)

theorem discard_removes_all_witness:
  "performAction (lit ''t'')
     \<lparr>type_action = Discard, factId = lit ''a'', factText = None\<rparr>
     [\<lparr>id_fact = lit ''a'', text_fact = lit ''x'', status = lit ''saved'', createdAt = lit ''t0''\<rparr>,
      \<lparr>id_fact = lit ''b'', text_fact = lit ''y'', status = lit ''saved'', createdAt = lit ''t1''\<rparr>,
      \<lparr>id_fact = lit ''a'', text_fact = lit ''z'', status = lit ''saved'', createdAt = lit ''t2''\<rparr>]
   = (Fulfilled,
      [\<lparr>id_fact = lit ''b'', text_fact = lit ''y'', status = lit ''saved'', createdAt = lit ''t1''\<rparr>])"
  using discard_removes_all
    [of "\<lparr>type_action = Discard, factId = lit ''a'', factText = None\<rparr>" "lit ''t''"
        "[\<lparr>id_fact = lit ''a'', text_fact = lit ''x'', status = lit ''saved'', createdAt = lit ''t0''\<rparr>,
          \<lparr>id_fact = lit ''b'', text_fact = lit ''y'', status = lit ''saved'', createdAt = lit ''t1''\<rparr>,
          \<lparr>id_fact = lit ''a'', text_fact = lit ''z'', status = lit ''saved'', createdAt = lit ''t2''\<rparr>]"]
  by (simp add: eval_defs)

text \<open>
  C10. The clock is the only thing besides the action and the collection that the
  result depends on. Two runs of the same action on the same collection, with the clock
  reading \<open>now1\<close> in one and \<open>now2\<close> in the other, either give the same result, or both
  append to the collection one record with the same id, text and status, whose
  \<open>createdAt\<close> is \<open>now1\<close> in one run and \<open>now2\<close> in the other.
\<close>

theorem deterministic_up_to_clock:
  "performAction now1 a facts = performAction now2 a facts \<or>
   (\<exists>fid txt.
      performAction now1 a facts =
        (Fulfilled,
         facts @ [\<lparr>id_fact = fid, text_fact = txt, status = lit ''saved'', createdAt = now1\<rparr>]) \<and>
      performAction now2 a facts =
        (Fulfilled,
         facts @ [\<lparr>id_fact = fid, text_fact = txt, status = lit ''saved'', createdAt = now2\<rparr>]))"
  by (cases "type_action a") (simp_all add: performAction_def updater_save updater_discard)

theorem deterministic_up_to_clock_witness:
  "performAction (lit ''t1'')
     \<lparr>type_action = Save, factId = lit ''a'', factText = Some (lit ''x'')\<rparr> []
   = (Fulfilled,
      [\<lparr>id_fact = lit ''a'', text_fact = lit ''x'', status = lit ''saved'', createdAt = lit ''t1''\<rparr>])
   \<and>
   performAction (lit ''t2'')
     \<lparr>type_action = Save, factId = lit ''a'', factText = Some (lit ''x'')\<rparr> []
   = (Fulfilled,
      [\<lparr>id_fact = lit ''a'', text_fact = lit ''x'', status = lit ''saved'', createdAt = lit ''t2''\<rparr>])"
  using deterministic_up_to_clock
    [of "lit ''t1''" "\<lparr>type_action = Save, factId = lit ''a'', factText = Some (lit ''x'')\<rparr>"
        "[]" "lit ''t2''"]
  by (simp add: eval_defs)

end
